theory Spec2Isabelle
  imports Main "HOL-Library.Word"
begin

section \<open>JavaScript strings\<close>

text \<open>
  A JavaScript string is a sequence of UTF-16 code units and \<open>.length\<close> counts code
  units, so a string is a list of 16-bit words. \<open>js\<close> embeds an ASCII literal of the
  source.
\<close>

type_synonym jsstring = "16 word list"

definition js :: "string \<Rightarrow> jsstring" where
  "js s = map (\<lambda>c. of_nat (of_char c)) s"

text \<open>
  \<open>String.prototype.trim\<close> strips WhiteSpace and LineTerminator code units from both
  ends: TAB, LF, VT, FF, CR, SP, NBSP, the other members of the category Zs, LS, PS and
  ZWNBSP.
\<close>

definition isWhiteSpace :: "16 word \<Rightarrow> bool" where
  "isWhiteSpace c \<longleftrightarrow>
     c \<in> {0x0009, 0x000A, 0x000B, 0x000C, 0x000D, 0x0020, 0x00A0, 0x1680,
          0x2000, 0x2001, 0x2002, 0x2003, 0x2004, 0x2005, 0x2006, 0x2007,
          0x2008, 0x2009, 0x200A, 0x2028, 0x2029, 0x202F, 0x205F, 0x3000, 0xFEFF}"

definition trim :: "jsstring \<Rightarrow> jsstring" where
  "trim s = rev (dropWhile isWhiteSpace (rev (dropWhile isWhiteSpace s)))"

text \<open>
  \<open>s.includes(t)\<close>: \<open>t\<close> occurs in \<open>s\<close> as a contiguous run of code units. The
  function is named \<open>str_includes\<close> because \<open>includes\<close> is a keyword of Isabelle.
\<close>

fun str_includes :: "jsstring \<Rightarrow> jsstring \<Rightarrow> bool" where
  "str_includes [] t = (t = [])"
| "str_includes (c # cs) t = (take (length t) (c # cs) = t \<or> str_includes cs t)"

section \<open>The literal union types of the page\<close>

text \<open>
  Each union of string literals is a datatype with one constructor per literal; the
  constructor for the literal \<open>""\<close> ends in \<open>_empty\<close>. The \<open>_lit\<close> functions give the
  text of the literal, which is what \<open>===\<close> and \<open>!==\<close> compare at run time.
\<close>

datatype PrimaryService =
  get_counsel | legal_drafting | liaison_lawyers | courtroom_tech
  | advocate_vigilance | document_review | legal_assessment | service_empty

fun PrimaryService_lit :: "PrimaryService \<Rightarrow> jsstring" where
  "PrimaryService_lit get_counsel = js ''get_counsel''"
| "PrimaryService_lit legal_drafting = js ''legal_drafting''"
| "PrimaryService_lit liaison_lawyers = js ''liaison_lawyers''"
| "PrimaryService_lit courtroom_tech = js ''courtroom_tech''"
| "PrimaryService_lit advocate_vigilance = js ''advocate_vigilance''"
| "PrimaryService_lit document_review = js ''document_review''"
| "PrimaryService_lit legal_assessment = js ''legal_assessment''"
| "PrimaryService_lit service_empty = js ''''"

datatype Urgency = standard_24_48 | within_6 | within_2

fun Urgency_lit :: "Urgency \<Rightarrow> jsstring" where
  "Urgency_lit standard_24_48 = js ''standard_24_48''"
| "Urgency_lit within_6 = js ''within_6''"
| "Urgency_lit within_2 = js ''within_2''"

datatype Gender = male | female | other | gender_empty

fun Gender_lit :: "Gender \<Rightarrow> jsstring" where
  "Gender_lit male = js ''male''"
| "Gender_lit female = js ''female''"
| "Gender_lit other = js ''other''"
| "Gender_lit gender_empty = js ''''"

datatype LegalDomain =
  Corporate_Commercial_and_Startups | Family_and_Matrimonial | Property_and_Real_Estate
  | Criminal_Matters | Civil_and_Consumer_Disputes | NRI_Specific_Services
  | Employment_and_Labor | Other_domain | domain_empty

fun LegalDomain_lit :: "LegalDomain \<Rightarrow> jsstring" where
  "LegalDomain_lit Corporate_Commercial_and_Startups = js ''Corporate, Commercial and Startups''"
| "LegalDomain_lit Family_and_Matrimonial = js ''Family and Matrimonial''"
| "LegalDomain_lit Property_and_Real_Estate = js ''Property and Real Estate''"
| "LegalDomain_lit Criminal_Matters = js ''Criminal Matters''"
| "LegalDomain_lit Civil_and_Consumer_Disputes = js ''Civil & Consumer Disputes''"
| "LegalDomain_lit NRI_Specific_Services = js ''NRI Specific Services''"
| "LegalDomain_lit Employment_and_Labor = js ''Employment & Labor''"
| "LegalDomain_lit Other_domain = js ''Other''"
| "LegalDomain_lit domain_empty = js ''''"

datatype ConsultMode = audio | video | in_person | mode_empty

fun ConsultMode_lit :: "ConsultMode \<Rightarrow> jsstring" where
  "ConsultMode_lit audio = js ''audio''"
| "ConsultMode_lit video = js ''video''"
| "ConsultMode_lit in_person = js ''in_person''"
| "ConsultMode_lit mode_empty = js ''''"

datatype PastLegalAction = yes | no | past_empty

fun PastLegalAction_lit :: "PastLegalAction \<Rightarrow> jsstring" where
  "PastLegalAction_lit yes = js ''yes''"
| "PastLegalAction_lit no = js ''no''"
| "PastLegalAction_lit past_empty = js ''''"

text \<open>The step is the union \<open>1 | 2\<close> of number literals.\<close>

datatype Step = Step1 | Step2

section \<open>Constants\<close>

definition FEES_base :: int where
  "FEES_base = 1500"

fun FEES_urgency :: "Urgency \<Rightarrow> int" where
  "FEES_urgency standard_24_48 = 0"
| "FEES_urgency within_6 = 500"
| "FEES_urgency within_2 = 1000"

text \<open>The \<open>key\<close> column of \<open>PRIMARY_SERVICES\<close>, in the order of the array.\<close>

definition PRIMARY_SERVICES :: "PrimaryService list" where
  "PRIMARY_SERVICES =
     [get_counsel, legal_drafting, liaison_lawyers, courtroom_tech,
      advocate_vigilance, document_review, legal_assessment]"

definition LEGAL_DOMAINS :: "LegalDomain list" where
  "LEGAL_DOMAINS =
     [Corporate_Commercial_and_Startups, Family_and_Matrimonial, Property_and_Real_Estate,
      Criminal_Matters, Civil_and_Consumer_Disputes, NRI_Specific_Services,
      Employment_and_Labor, Other_domain]"

text \<open>The array of options mapped inside the time-window select.\<close>

definition timeWindowOptions :: "jsstring list" where
  "timeWindowOptions =
     [js ''10:00 AM - 12:00 PM'', js ''12:00 PM - 02:00 PM'', js ''02:00 PM - 04:00 PM'',
      js ''04:00 PM - 06:00 PM'', js ''06:00 PM - 08:00 PM'']"

definition consultModeOptions :: "ConsultMode list" where
  "consultModeOptions = [audio, video, in_person]"

definition pastLegalActionOptions :: "PastLegalAction list" where
  "pastLegalActionOptions = [yes, no]"

section \<open>The state of \<open>BookingFormPage\<close>\<close>

text \<open>
  A browser \<open>File\<close> object: the page reads only its name; \<open>handle\<close> stands for the
  identity of the object.
\<close>

datatype File = File (fname: jsstring) (handle: nat)

text \<open>One field per \<open>useState\<close> hook, in the order of the component.\<close>

record State =
  step :: Step
  name :: jsstring
  gender :: Gender
  email :: jsstring
  emailOtp :: jsstring
  phone :: jsstring
  phoneOtp :: jsstring
  nationality :: jsstring
  dob :: jsstring
  address :: jsstring
  emailOtpSent :: bool
  emailOtpVerified :: bool
  phoneOtpSent :: bool
  phoneOtpVerified :: bool
  primaryService :: PrimaryService
  legalDomain :: LegalDomain
  caseDetails :: jsstring
  consultMode :: ConsultMode
  preferredDate :: jsstring
  timeWindow :: jsstring
  urgency :: Urgency
  pastLegalAction :: PastLegalAction
  files :: "File list"

definition initial :: State where
  "initial =
     \<lparr> step = Step1, name = js '''', gender = gender_empty, email = js '''',
       emailOtp = js '''', phone = js '''', phoneOtp = js '''', nationality = js '''',
       dob = js '''', address = js '''',
       emailOtpSent = False, emailOtpVerified = False,
       phoneOtpSent = False, phoneOtpVerified = False,
       primaryService = service_empty, legalDomain = domain_empty, caseDetails = js '''',
       consultMode = mode_empty, preferredDate = js ''2026-02-20'',
       timeWindow = js ''12:00 PM - 02:00 PM'', urgency = standard_24_48,
       pastLegalAction = past_empty, files = [] \<rparr>"

section \<open>Derived values\<close>

definition isCounsel :: "State \<Rightarrow> bool" where
  "isCounsel s \<longleftrightarrow> PrimaryService_lit (primaryService s) = js ''get_counsel''"

definition total :: "State \<Rightarrow> int" where
  "total s = FEES_base + FEES_urgency (urgency s)"

definition canGoStep2 :: "State \<Rightarrow> bool" where
  "canGoStep2 s =
     (let basicOk =
            (length (trim (name s)) > 1 \<and>
             Gender_lit (gender s) \<noteq> js '''' \<and>
             str_includes (email s) (js ''@'') \<and>
             length (trim (phone s)) \<ge> 8 \<and>
             length (trim (nationality s)) > 1 \<and>
             length (trim (address s)) > 5);
          emailOk = (emailOtpVerified s \<or> \<not> emailOtpSent s);
          phoneOk = (phoneOtpVerified s \<or> \<not> phoneOtpSent s)
      in basicOk \<and> emailOk \<and> phoneOk)"

definition counselReady :: "State \<Rightarrow> bool" where
  "counselReady s =
     (if \<not> isCounsel s then False
      else (LegalDomain_lit (legalDomain s) \<noteq> js '''' \<and>
            length (trim (caseDetails s)) \<ge> 10 \<and>
            ConsultMode_lit (consultMode s) \<noteq> js '''' \<and>
            preferredDate s \<noteq> js '''' \<and>
            timeWindow s \<noteq> js '''' \<and>
            Urgency_lit (urgency s) \<noteq> js '''' \<and>
            PastLegalAction_lit (pastLegalAction s) \<noteq> js ''''))"

definition readyToBook :: "State \<Rightarrow> bool" where
  "readyToBook s =
     (if PrimaryService_lit (primaryService s) = js '''' then False
      else if isCounsel s then counselReady s
      else True)"

section \<open>Event handlers\<close>

text \<open>\<open>setFiles((prev) => [...prev, ...dropped])\<close>, run only when the list is not empty.\<close>

definition handleDrop :: "File list \<Rightarrow> State \<Rightarrow> State" where
  "handleDrop dropped s =
     (if length dropped \<noteq> 0 then s\<lparr>files := files s @ dropped\<rparr> else s)"

text \<open>The \<open>onChange\<close> handler of the hidden file input.\<close>

definition handleChosen :: "File list \<Rightarrow> State \<Rightarrow> State" where
  "handleChosen chosen s =
     (if length chosen \<noteq> 0 then s\<lparr>files := files s @ chosen\<rparr> else s)"

text \<open>\<open>prev.filter((_, i) => i !== idx)\<close>.\<close>

definition removeAt :: "nat \<Rightarrow> 'a list \<Rightarrow> 'a list" where
  "removeAt idx prev = map snd (filter (\<lambda>(i, _). i \<noteq> idx) (enumerate 0 prev))"

text \<open>
  Every handler attached in the markup is one event. \<open>Collapse\<close> only switches CSS
  classes, its children stay mounted, so the sole guards are the \<open>disabled\<close> attributes
  and the option lists from which the buttons and selects are rendered.
\<close>

datatype Event =
  SetName jsstring
  | SetGender Gender
  | SetEmail jsstring
  | SetEmailOtp jsstring
  | SendEmailOtp
  | VerifyEmailOtp
  | SetPhone jsstring
  | SetPhoneOtp jsstring
  | SendPhoneOtp
  | VerifyPhoneOtp
  | SetNationality jsstring
  | SetDob jsstring
  | SetAddress jsstring
  | ContinueToServices
  | SelectPrimaryService PrimaryService
  | SelectLegalDomain LegalDomain
  | SetCaseDetails jsstring
  | DropFiles "File list"
  | ChooseFiles "File list"
  | RemoveFile nat
  | SelectConsultMode ConsultMode
  | SetPreferredDate jsstring
  | SelectTimeWindow jsstring
  | SelectUrgency Urgency
  | SelectPastLegalAction PastLegalAction
  | CounselBack
  | PayAndBook
  | OtherBack
  | OtherContinue

fun enabled :: "Event \<Rightarrow> State \<Rightarrow> bool" where
  "enabled (SetEmailOtp v) s = emailOtpSent s"
| "enabled VerifyEmailOtp s = emailOtpSent s"
| "enabled (SetPhoneOtp v) s = phoneOtpSent s"
| "enabled VerifyPhoneOtp s = phoneOtpSent s"
| "enabled ContinueToServices s = canGoStep2 s"
| "enabled (SelectPrimaryService k) s = (k \<in> set PRIMARY_SERVICES)"
| "enabled (SelectLegalDomain d) s = (d \<in> set LEGAL_DOMAINS)"
| "enabled (RemoveFile idx) s = (idx < length (files s))"
| "enabled (SelectConsultMode m) s = (m \<in> set consultModeOptions)"
| "enabled (SelectTimeWindow t) s = (t \<in> set timeWindowOptions)"
| "enabled (SelectPastLegalAction v) s = (v \<in> set pastLegalActionOptions)"
| "enabled _ s = True"

fun handler :: "Event \<Rightarrow> State \<Rightarrow> State" where
  "handler (SetName v) s = s\<lparr>name := v\<rparr>"
| "handler (SetGender g) s = s\<lparr>gender := g\<rparr>"
| "handler (SetEmail v) s = s\<lparr>email := v\<rparr>"
| "handler (SetEmailOtp v) s = s\<lparr>emailOtp := v\<rparr>"
| "handler SendEmailOtp s =
     s\<lparr>emailOtpSent := True, emailOtpVerified := False, emailOtp := js ''''\<rparr>"
| "handler VerifyEmailOtp s = s\<lparr>emailOtpVerified := (length (trim (emailOtp s)) \<ge> 4)\<rparr>"
| "handler (SetPhone v) s = s\<lparr>phone := v\<rparr>"
| "handler (SetPhoneOtp v) s = s\<lparr>phoneOtp := v\<rparr>"
| "handler SendPhoneOtp s =
     s\<lparr>phoneOtpSent := True, phoneOtpVerified := False, phoneOtp := js ''''\<rparr>"
| "handler VerifyPhoneOtp s = s\<lparr>phoneOtpVerified := (length (trim (phoneOtp s)) \<ge> 4)\<rparr>"
| "handler (SetNationality v) s = s\<lparr>nationality := v\<rparr>"
| "handler (SetDob v) s = s\<lparr>dob := v\<rparr>"
| "handler (SetAddress v) s = s\<lparr>address := v\<rparr>"
| "handler ContinueToServices s = s\<lparr>step := Step2\<rparr>"
| "handler (SelectPrimaryService k) s = s\<lparr>primaryService := k\<rparr>"
| "handler (SelectLegalDomain d) s = s\<lparr>legalDomain := d\<rparr>"
| "handler (SetCaseDetails v) s = s\<lparr>caseDetails := v\<rparr>"
| "handler (DropFiles dropped) s = handleDrop dropped s"
| "handler (ChooseFiles chosen) s = handleChosen chosen s"
| "handler (RemoveFile idx) s = s\<lparr>files := removeAt idx (files s)\<rparr>"
| "handler (SelectConsultMode m) s = s\<lparr>consultMode := m\<rparr>"
| "handler (SetPreferredDate v) s = s\<lparr>preferredDate := v\<rparr>"
| "handler (SelectTimeWindow t) s = s\<lparr>timeWindow := t\<rparr>"
| "handler (SelectUrgency u) s = s\<lparr>urgency := u\<rparr>"
| "handler (SelectPastLegalAction v) s = s\<lparr>pastLegalAction := v\<rparr>"
| "handler CounselBack s = s\<lparr>primaryService := service_empty\<rparr>"
| "handler PayAndBook s = s"
| "handler OtherBack s = s\<lparr>primaryService := service_empty\<rparr>"
| "handler OtherContinue s = s"

text \<open>
  A session is a list of events handled in turn; an event whose control is disabled
  cannot be fired, and the run is then \<open>None\<close>.
\<close>

fun run :: "Event list \<Rightarrow> State \<Rightarrow> State option" where
  "run [] s = Some s"
| "run (e # es) s = (if enabled e s then run es (handler e s) else None)"

section \<open>Sample states\<close>

text \<open>The applicant of the specification's example, with no OTP ever sent.\<close>

definition example_applicant :: State where
  "example_applicant =
     initial\<lparr>name := js ''Jo'', gender := male, email := js ''a@b.com'',
             phone := js ''12345678'', nationality := js ''IN'',
             address := js ''123 Main St City''\<rparr>"

text \<open>The same applicant with the name \<open>"J "\<close>: two code units, one after trimming.\<close>

definition padded_applicant :: State where
  "padded_applicant = example_applicant\<lparr>name := js ''J ''\<rparr>"

text \<open>
  A counsel request with every choice made and ten code units of case details, the
  last of them a space.
\<close>

definition padded_counsel :: State where
  "padded_counsel =
     initial\<lparr>primaryService := get_counsel, legalDomain := Criminal_Matters,
             caseDetails := js ''123456789 '', consultMode := video,
             pastLegalAction := no\<rparr>"

text \<open>The same request with ten digits of case details.\<close>

definition complete_counsel :: State where
  "complete_counsel = padded_counsel\<lparr>caseDetails := js ''1234567890''\<rparr>"

text \<open>An email OTP was sent and the four code units \<open>"123 "\<close> were typed.\<close>

definition padded_otp :: State where
  "padded_otp = handler (SetEmailOtp (js ''123 '')) (handler SendEmailOtp initial)"

text \<open>A session that sends the email OTP, types \<open>"1234"\<close> and verifies.\<close>

definition verify_session :: "Event list" where
  "verify_session = [SendEmailOtp, SetEmailOtp (js ''1234''), VerifyEmailOtp]"

definition verified_state :: State where
  "verified_state =
     initial\<lparr>emailOtpSent := True, emailOtpVerified := True, emailOtp := js ''1234''\<rparr>"

text \<open>A session that fills in the example applicant and continues.\<close>

definition fill_session :: "Event list" where
  "fill_session =
     [SetName (js ''Jo''), SetGender male, SetEmail (js ''a@b.com''),
      SetPhone (js ''12345678''), SetNationality (js ''IN''),
      SetAddress (js ''123 Main St City'')]"

definition two_files :: "File list" where
  "two_files = [File (js ''a.pdf'') 0, File (js ''b.pdf'') 1]"

text \<open>A session that opens the counsel flow and picks the last time window and tier.\<close>

definition counsel_session :: "Event list" where
  "counsel_session =
     [SelectPrimaryService get_counsel, SelectTimeWindow (js ''06:00 PM - 08:00 PM''),
      SelectUrgency within_2]"

definition counsel_session_end :: State where
  "counsel_session_end =
     initial\<lparr>primaryService := get_counsel, timeWindow := js ''06:00 PM - 08:00 PM'',
             urgency := within_2\<rparr>"

section \<open>Facts about strings and literals\<close>

lemma js_Nil [simp]: "js [] = []"
  by (simp add: js_def)

lemma js_eq_Nil_iff [simp]: "js s = [] \<longleftrightarrow> s = []"
  by (simp add: js_def)

lemma Nil_eq_js_iff [simp]: "[] = js s \<longleftrightarrow> s = []"
  by (simp add: js_def)

lemma length_trim_le: "length (trim s) \<le> length s"
proof -
  have "length (trim s) \<le> length (dropWhile isWhiteSpace s)"
    unfolding trim_def using length_dropWhile_le [of isWhiteSpace "rev (dropWhile isWhiteSpace s)"]
    by simp
  also have "\<dots> \<le> length s"
    by (rule length_dropWhile_le)
  finally show ?thesis .
qed

lemma str_includes_single: "str_includes s [c] \<longleftrightarrow> c \<in> set s"
  by (induction s) auto

lemma includes_at_sign: "str_includes s (js ''@'') \<longleftrightarrow> 0x40 \<in> set s"
proof -
  have "js ''@'' = [0x40]"
    by (simp add: js_def)
  then show ?thesis
    by (simp add: str_includes_single)
qed

lemma Gender_lit_empty [simp]: "Gender_lit g = [] \<longleftrightarrow> g = gender_empty"
  by (cases g) simp_all

lemma LegalDomain_lit_empty [simp]: "LegalDomain_lit d = [] \<longleftrightarrow> d = domain_empty"
  by (cases d) simp_all

lemma ConsultMode_lit_empty [simp]: "ConsultMode_lit m = [] \<longleftrightarrow> m = mode_empty"
  by (cases m) simp_all

lemma PastLegalAction_lit_empty [simp]: "PastLegalAction_lit p = [] \<longleftrightarrow> p = past_empty"
  by (cases p) simp_all

lemma PrimaryService_lit_empty [simp]: "PrimaryService_lit k = [] \<longleftrightarrow> k = service_empty"
  by (cases k) simp_all

lemma Urgency_lit_not_empty [simp]: "Urgency_lit u \<noteq> []"
  by (cases u) simp_all

lemma isCounsel_iff: "isCounsel s \<longleftrightarrow> primaryService s = get_counsel"
  unfolding isCounsel_def by (cases "primaryService s") (simp_all add: js_def)

lemma counselReady_unfold:
  "counselReady s \<longleftrightarrow>
     primaryService s = get_counsel \<and> legalDomain s \<noteq> domain_empty \<and>
     10 \<le> length (trim (caseDetails s)) \<and> consultMode s \<noteq> mode_empty \<and>
     preferredDate s \<noteq> [] \<and> timeWindow s \<noteq> [] \<and> pastLegalAction s \<noteq> past_empty"
  by (simp add: counselReady_def isCounsel_iff)

lemma canGoStep2_unfold:
  "canGoStep2 s \<longleftrightarrow>
     1 < length (trim (name s)) \<and> gender s \<noteq> gender_empty \<and> 0x40 \<in> set (email s) \<and>
     8 \<le> length (trim (phone s)) \<and> 1 < length (trim (nationality s)) \<and>
     5 < length (trim (address s)) \<and>
     (emailOtpVerified s \<or> \<not> emailOtpSent s) \<and> (phoneOtpVerified s \<or> \<not> phoneOtpSent s)"
  by (simp add: canGoStep2_def includes_at_sign)

section \<open>Facts about the attachment list\<close>

lemma filter_enumerate_below:
  "k < n \<Longrightarrow> map snd (filter (\<lambda>(i, _). i \<noteq> k) (enumerate n xs)) = xs"
  by (induction xs arbitrary: n) auto

lemma filter_enumerate_at:
  "map snd (filter (\<lambda>(i, _). i \<noteq> n + k) (enumerate n xs)) = take k xs @ drop (Suc k) xs"
proof (induction xs arbitrary: n k)
  case Nil
  show ?case by simp
next
  case (Cons x xs)
  show ?case
  proof (cases k)
    case 0
    then show ?thesis
      by (simp add: filter_enumerate_below)
  next
    case (Suc j)
    have "map snd (filter (\<lambda>(i, _). i \<noteq> Suc n + j) (enumerate (Suc n) xs))
            = take j xs @ drop (Suc j) xs"
      by (rule Cons.IH)
    with Suc show ?thesis
      by simp
  qed
qed

lemma removeAt_take_drop: "removeAt i xs = take i xs @ drop (Suc i) xs"
  unfolding removeAt_def using filter_enumerate_at [of 0 i xs] by simp

lemma removeAt_out_of_range: "length xs \<le> i \<Longrightarrow> removeAt i xs = xs"
  by (simp add: removeAt_take_drop)

section \<open>Facts about sessions\<close>

lemma run_invariant:
  assumes "P s0"
    and "\<And>e s. P s \<Longrightarrow> enabled e s \<Longrightarrow> P (handler e s)"
    and "run es s0 = Some s"
  shows "P s"
  using assms(1,3)
proof (induction es arbitrary: s0)
  case Nil
  then show ?case by simp
next
  case (Cons e es)
  from Cons.prems(2) have en: "enabled e s0" and rest: "run es (handler e s0) = Some s"
    by (auto split: if_splits)
  from assms(2) [OF Cons.prems(1) en] rest show ?case
    by (rule Cons.IH)
qed

lemma handler_step:
  "e \<noteq> ContinueToServices \<Longrightarrow> step (handler e s) = step s"
  by (cases e) (simp_all add: handleDrop_def handleChosen_def)

lemma handler_otp_invariant:
  "(emailOtpVerified s \<longrightarrow> emailOtpSent s) \<and> (phoneOtpVerified s \<longrightarrow> phoneOtpSent s) \<Longrightarrow>
   enabled e s \<Longrightarrow>
   (emailOtpVerified (handler e s) \<longrightarrow> emailOtpSent (handler e s)) \<and>
   (phoneOtpVerified (handler e s) \<longrightarrow> phoneOtpSent (handler e s))"
  by (cases e) (simp_all add: handleDrop_def handleChosen_def)

lemma timeWindowOptions_not_empty: "t \<in> set timeWindowOptions \<Longrightarrow> t \<noteq> []"
  by (auto simp: timeWindowOptions_def)

lemma handler_timeWindow:
  "enabled e s \<Longrightarrow>
   timeWindow (handler e s) = timeWindow s \<or> timeWindow (handler e s) \<in> set timeWindowOptions"
  by (cases e) (simp_all add: handleDrop_def handleChosen_def)

lemma continue_before_step2:
  "run es s0 = Some s \<Longrightarrow> step s0 = Step1 \<Longrightarrow> step s = Step2 \<Longrightarrow>
   \<exists>pre post t. es = pre @ ContinueToServices # post \<and> run pre s0 = Some t \<and> canGoStep2 t"
proof (induction es arbitrary: s0)
  case Nil
  then show ?case by simp
next
  case (Cons e es)
  from Cons.prems(1) have en: "enabled e s0" and rest: "run es (handler e s0) = Some s"
    by (auto split: if_splits)
  show ?case
  proof (cases "e = ContinueToServices")
    case True
    with en have "canGoStep2 s0" by simp
    with True have "e # es = [] @ ContinueToServices # es \<and> run [] s0 = Some s0 \<and> canGoStep2 s0"
      by simp
    then show ?thesis by blast
  next
    case False
    with Cons.prems(2) have "step (handler e s0) = Step1"
      by (simp add: handler_step)
    from Cons.IH [OF rest this Cons.prems(3)]
    obtain pre post t where
      "es = pre @ ContinueToServices # post" "run pre (handler e s0) = Some t" "canGoStep2 t"
      by blast
    with en have "e # es = (e # pre) @ ContinueToServices # post \<and>
        run (e # pre) s0 = Some t \<and> canGoStep2 t"
      by simp
    then show ?thesis by blast
  qed
qed

section \<open>Step-1 gate\<close>

text \<open>
  C1, as stated: \<open>canGoStep2\<close> is true exactly when name length > 1, gender set, email
  contains "@", phone length \<ge> 8, nationality length > 1, address length > 5 and neither
  verification blocks. The applicant named \<open>"J "\<close> meets every one of these conditions on
  the raw lengths, with no OTP sent, and yet cannot advance: the code measures the
  trimmed name.
\<close>

theorem canGoStep2_raw_length_counterexample:
  "\<not> canGoStep2 padded_applicant \<and>
   1 < length (name padded_applicant) \<and>
   gender padded_applicant \<noteq> gender_empty \<and>
   0x40 \<in> set (email padded_applicant) \<and>
   8 \<le> length (phone padded_applicant) \<and>
   1 < length (nationality padded_applicant) \<and>
   5 < length (address padded_applicant) \<and>
   \<not> emailOtpSent padded_applicant \<and> \<not> phoneOtpSent padded_applicant"
  by (simp add: canGoStep2_unfold padded_applicant_def example_applicant_def initial_def
      js_def trim_def isWhiteSpace_def)

text \<open>
  C1, amended: for every form state \<open>canGoStep2\<close> is true if and only if the name, the
  phone, the nationality and the address, each with leading and trailing white space
  trimmed, have length > 1, \<ge> 8, > 1 and > 5, the gender is set, the email contains
  "@", and each of the two verifications is verified or was never sent; the example
  applicant of the specification, with no OTP sent, can advance.
\<close>

theorem canGoStep2_iff:
  "(canGoStep2 s \<longleftrightarrow>
      (1 < length (trim (name s)) \<and> gender s \<noteq> gender_empty \<and> 0x40 \<in> set (email s) \<and>
       8 \<le> length (trim (phone s)) \<and> 1 < length (trim (nationality s)) \<and>
       5 < length (trim (address s))) \<and>
      (emailOtpVerified s \<or> \<not> emailOtpSent s) \<and>
      (phoneOtpVerified s \<or> \<not> phoneOtpSent s)) \<and>
   canGoStep2 example_applicant"
proof
  show "canGoStep2 s \<longleftrightarrow>
      (1 < length (trim (name s)) \<and> gender s \<noteq> gender_empty \<and> 0x40 \<in> set (email s) \<and>
       8 \<le> length (trim (phone s)) \<and> 1 < length (trim (nationality s)) \<and>
       5 < length (trim (address s))) \<and>
      (emailOtpVerified s \<or> \<not> emailOtpSent s) \<and>
      (phoneOtpVerified s \<or> \<not> phoneOtpSent s)"
    by (simp add: canGoStep2_unfold)
  show "canGoStep2 example_applicant"
    by (simp add: canGoStep2_unfold example_applicant_def initial_def
        js_def trim_def isWhiteSpace_def)
qed

theorem canGoStep2_iff_witness:
  "canGoStep2 example_applicant \<and>
   length (trim (name example_applicant)) = 2 \<and>
   gender example_applicant = male \<and>
   length (trim (phone example_applicant)) = 8 \<and>
   \<not> emailOtpSent example_applicant \<and> \<not> phoneOtpSent example_applicant \<and>
   \<not> canGoStep2 (example_applicant\<lparr>emailOtpSent := True\<rparr>)"
  using canGoStep2_iff [of example_applicant]
    canGoStep2_iff [of "example_applicant\<lparr>emailOtpSent := True\<rparr>"]
  by (simp add: example_applicant_def initial_def js_def trim_def isWhiteSpace_def)

section \<open>Price\<close>

text \<open>
  C2: the total is a function of the urgency tier alone: the base fee is the constant
  1500, the surcharge is 0, 500 or 1000 for standard_24_48, within_6 and within_2, the
  total is their sum, hence 1500, 2000 and 2500, and two states with the same urgency
  have the same total whatever their other fields hold.
\<close>

theorem total_by_urgency:
  "total s = FEES_base + FEES_urgency (urgency s) \<and>
   FEES_base = 1500 \<and>
   FEES_urgency standard_24_48 = 0 \<and> FEES_urgency within_6 = 500 \<and>
   FEES_urgency within_2 = 1000 \<and>
   (urgency s = standard_24_48 \<longrightarrow> total s = 1500) \<and>
   (urgency s = within_6 \<longrightarrow> total s = 2000) \<and>
   (urgency s = within_2 \<longrightarrow> total s = 2500) \<and>
   (urgency s' = urgency s \<longrightarrow> total s' = total s)"
  by (simp add: total_def FEES_base_def)

theorem total_by_urgency_witness:
  "urgency (complete_counsel\<lparr>urgency := within_6\<rparr>) = within_6 \<and>
   total (complete_counsel\<lparr>urgency := within_6\<rparr>) = 2000 \<and>
   urgency (initial\<lparr>urgency := within_6\<rparr>) = urgency (complete_counsel\<lparr>urgency := within_6\<rparr>) \<and>
   total (initial\<lparr>urgency := within_6\<rparr>) = total (complete_counsel\<lparr>urgency := within_6\<rparr>) \<and>
   total initial = 1500 \<and>
   total (initial\<lparr>urgency := within_2\<rparr>) = 2500"
  using total_by_urgency [of "complete_counsel\<lparr>urgency := within_6\<rparr>" "initial\<lparr>urgency := within_6\<rparr>"]
    total_by_urgency [of initial initial]
    total_by_urgency [of "initial\<lparr>urgency := within_2\<rparr>" initial]
  by (simp add: initial_def)

section \<open>Counsel readiness\<close>

text \<open>
  C3, as stated: \<open>counselReady\<close> is true exactly when the counsel flow is active, the
  legal domain is set, caseDetails has length \<ge> 10, the consult mode is set, the date and
  the time window are non-empty, the urgency is set and the past legal action is set. A
  request with every choice made and the ten code units \<open>"123456789 "\<close> of case details
  meets all of this and is not ready: the code measures the trimmed text.
\<close>

theorem counselReady_raw_length_counterexample:
  "\<not> counselReady padded_counsel \<and>
   primaryService padded_counsel = get_counsel \<and>
   legalDomain padded_counsel \<noteq> domain_empty \<and>
   10 \<le> length (caseDetails padded_counsel) \<and>
   consultMode padded_counsel \<noteq> mode_empty \<and>
   preferredDate padded_counsel \<noteq> js '''' \<and>
   timeWindow padded_counsel \<noteq> js '''' \<and>
   Urgency_lit (urgency padded_counsel) \<noteq> js '''' \<and>
   pastLegalAction padded_counsel \<noteq> past_empty"
  by (simp add: counselReady_unfold padded_counsel_def initial_def
      js_def trim_def isWhiteSpace_def)

text \<open>
  C3, amended: for every form state \<open>counselReady\<close> is true if and only if the primary
  service is get_counsel, the legal domain is set, caseDetails with leading and trailing
  white space trimmed has length \<ge> 10, the consult mode is set, the preferred date and
  the time window are non-empty, the urgency is set and the past legal action is set.
  So it is false whenever the legal domain, the consult mode or the past legal action is
  unset or caseDetails has fewer than 10 characters, and two states that agree on these
  eight fields agree on \<open>counselReady\<close>, however they were reached.
\<close>

theorem counselReady_iff:
  "(counselReady s \<longleftrightarrow>
      primaryService s = get_counsel \<and> legalDomain s \<noteq> domain_empty \<and>
      10 \<le> length (trim (caseDetails s)) \<and> consultMode s \<noteq> mode_empty \<and>
      preferredDate s \<noteq> js '''' \<and> timeWindow s \<noteq> js '''' \<and>
      Urgency_lit (urgency s) \<noteq> js '''' \<and> pastLegalAction s \<noteq> past_empty) \<and>
   (legalDomain s = domain_empty \<or> consultMode s = mode_empty \<or>
    pastLegalAction s = past_empty \<or> length (caseDetails s) < 10
      \<longrightarrow> \<not> counselReady s) \<and>
   (primaryService s' = primaryService s \<and> legalDomain s' = legalDomain s \<and>
    caseDetails s' = caseDetails s \<and> consultMode s' = consultMode s \<and>
    preferredDate s' = preferredDate s \<and> timeWindow s' = timeWindow s \<and>
    urgency s' = urgency s \<and> pastLegalAction s' = pastLegalAction s
      \<longrightarrow> counselReady s' = counselReady s)"
proof -
  have short: "length (caseDetails s) < 10 \<Longrightarrow> \<not> 10 \<le> length (trim (caseDetails s))"
    using length_trim_le [of "caseDetails s"] by arith
  show ?thesis
    using short by (auto simp: counselReady_unfold)
qed

theorem counselReady_iff_witness:
  "counselReady complete_counsel \<and>
   pastLegalAction (complete_counsel\<lparr>pastLegalAction := past_empty\<rparr>) = past_empty \<and>
   \<not> counselReady (complete_counsel\<lparr>pastLegalAction := past_empty\<rparr>) \<and>
   counselReady (handler (SelectPastLegalAction no)
                  (complete_counsel\<lparr>pastLegalAction := past_empty\<rparr>)) \<and>
   counselReady (handler (SelectConsultMode video) (handler (SelectLegalDomain Criminal_Matters)
                  (complete_counsel\<lparr>legalDomain := domain_empty, consultMode := mode_empty\<rparr>))) =
   counselReady (handler (SelectLegalDomain Criminal_Matters) (handler (SelectConsultMode video)
                  (complete_counsel\<lparr>legalDomain := domain_empty, consultMode := mode_empty\<rparr>)))"
  using counselReady_iff [of complete_counsel complete_counsel]
    counselReady_iff [of "complete_counsel\<lparr>pastLegalAction := past_empty\<rparr>" complete_counsel]
    counselReady_iff [of "handler (SelectLegalDomain Criminal_Matters) (handler (SelectConsultMode video)
                  (complete_counsel\<lparr>legalDomain := domain_empty, consultMode := mode_empty\<rparr>))"
       "handler (SelectConsultMode video) (handler (SelectLegalDomain Criminal_Matters)
                  (complete_counsel\<lparr>legalDomain := domain_empty, consultMode := mode_empty\<rparr>))"]
  by (simp add: complete_counsel_def padded_counsel_def initial_def
      js_def trim_def isWhiteSpace_def)

section \<open>Booking readiness\<close>

text \<open>
  C4: \<open>readyToBook\<close> is false when no primary service is selected; with get_counsel
  selected it equals \<open>counselReady\<close>; with any of the other six services selected it is
  true, whatever the other fields hold.
\<close>

theorem readyToBook_cases:
  "(primaryService s = service_empty \<longrightarrow> \<not> readyToBook s) \<and>
   (primaryService s = get_counsel \<longrightarrow> readyToBook s = counselReady s) \<and>
   (primaryService s \<in> {legal_drafting, liaison_lawyers, courtroom_tech,
                        advocate_vigilance, document_review, legal_assessment}
      \<longrightarrow> readyToBook s)"
  by (auto simp: readyToBook_def isCounsel_iff)

theorem readyToBook_cases_witness:
  "primaryService initial = service_empty \<and> \<not> readyToBook initial \<and>
   primaryService complete_counsel = get_counsel \<and>
   readyToBook complete_counsel = counselReady complete_counsel \<and>
   primaryService padded_counsel = get_counsel \<and>
   readyToBook padded_counsel = counselReady padded_counsel \<and>
   primaryService (initial\<lparr>primaryService := document_review\<rparr>) = document_review \<and>
   readyToBook (initial\<lparr>primaryService := document_review\<rparr>)"
  using readyToBook_cases [of initial] readyToBook_cases [of complete_counsel]
    readyToBook_cases [of padded_counsel]
    readyToBook_cases [of "initial\<lparr>primaryService := document_review\<rparr>"]
  by (simp add: complete_counsel_def padded_counsel_def initial_def)

section \<open>OTP handlers\<close>

text \<open>
  C5, as stated: verifying with at least 4 entered characters sets verified to true.
  After a send, the four code units \<open>"123 "\<close> are entered and the verify handler leaves
  verified false: the code measures the trimmed code.
\<close>

theorem verify_raw_length_counterexample:
  "emailOtpSent padded_otp \<and> 4 \<le> length (emailOtp padded_otp) \<and>
   \<not> emailOtpVerified (handler VerifyEmailOtp padded_otp)"
  by (simp add: padded_otp_def initial_def js_def trim_def isWhiteSpace_def)

text \<open>
  C5, amended: for each channel, the send handler sets sent to true, verified to false
  and the entered code to the empty string, so a send after a successful verification
  resets verified; the verify handler sets verified to the truth value of (length of the
  entered code, with leading and trailing white space trimmed, \<ge> 4), so verifying with
  fewer than 4 entered characters leaves verified false.
\<close>

theorem otp_send_verify:
  "emailOtpSent (handler SendEmailOtp s) \<and> \<not> emailOtpVerified (handler SendEmailOtp s) \<and>
   emailOtp (handler SendEmailOtp s) = js '''' \<and>
   phoneOtpSent (handler SendPhoneOtp s) \<and> \<not> phoneOtpVerified (handler SendPhoneOtp s) \<and>
   phoneOtp (handler SendPhoneOtp s) = js '''' \<and>
   emailOtpVerified (handler VerifyEmailOtp s) = (4 \<le> length (trim (emailOtp s))) \<and>
   phoneOtpVerified (handler VerifyPhoneOtp s) = (4 \<le> length (trim (phoneOtp s))) \<and>
   (length (emailOtp s) < 4 \<longrightarrow> \<not> emailOtpVerified (handler VerifyEmailOtp s)) \<and>
   (length (phoneOtp s) < 4 \<longrightarrow> \<not> phoneOtpVerified (handler VerifyPhoneOtp s))"
proof -
  have "length (emailOtp s) < 4 \<Longrightarrow> \<not> 4 \<le> length (trim (emailOtp s))"
    using length_trim_le [of "emailOtp s"] by arith
  moreover have "length (phoneOtp s) < 4 \<Longrightarrow> \<not> 4 \<le> length (trim (phoneOtp s))"
    using length_trim_le [of "phoneOtp s"] by arith
  ultimately show ?thesis
    by simp
qed

theorem otp_send_verify_witness:
  "emailOtpVerified verified_state \<and>
   \<not> emailOtpVerified (handler SendEmailOtp verified_state) \<and>
   emailOtpSent (handler SendEmailOtp verified_state) \<and>
   emailOtp (handler SendEmailOtp verified_state) = js '''' \<and>
   emailOtpVerified (handler VerifyEmailOtp (verified_state\<lparr>emailOtpVerified := False\<rparr>)) \<and>
   length (phoneOtp (initial\<lparr>phoneOtpSent := True, phoneOtp := js ''123''\<rparr>)) < 4 \<and>
   \<not> phoneOtpVerified (handler VerifyPhoneOtp
        (initial\<lparr>phoneOtpSent := True, phoneOtp := js ''123''\<rparr>))"
  using otp_send_verify [of verified_state]
    otp_send_verify [of "verified_state\<lparr>emailOtpVerified := False\<rparr>"]
    otp_send_verify [of "initial\<lparr>phoneOtpSent := True, phoneOtp := js ''123''\<rparr>"]
  by (simp add: verified_state_def initial_def js_def trim_def isWhiteSpace_def)

section \<open>Verified only after sent\<close>

text \<open>
  C6: in every state reached from the initial state by a sequence of enabled events,
  for the email and for the phone channel, verified implies sent. The verify button is
  enabled exactly when sent is true, and the send handler, which sets sent, sets
  verified to false.
\<close>

theorem verified_implies_sent:
  "(run es initial = Some s \<longrightarrow>
      (emailOtpVerified s \<longrightarrow> emailOtpSent s) \<and> (phoneOtpVerified s \<longrightarrow> phoneOtpSent s)) \<and>
   enabled VerifyEmailOtp s = emailOtpSent s \<and>
   enabled VerifyPhoneOtp s = phoneOtpSent s \<and>
   (emailOtpSent (handler SendEmailOtp s) \<and> \<not> emailOtpVerified (handler SendEmailOtp s)) \<and>
   (phoneOtpSent (handler SendPhoneOtp s) \<and> \<not> phoneOtpVerified (handler SendPhoneOtp s))"
proof -
  let ?inv = "\<lambda>t. (emailOtpVerified t \<longrightarrow> emailOtpSent t) \<and>
                  (phoneOtpVerified t \<longrightarrow> phoneOtpSent t)"
  have start: "?inv initial"
    by (simp add: initial_def)
  have "?inv s" if reach: "run es initial = Some s"
    using start handler_otp_invariant reach by (rule run_invariant [where P = ?inv])
  then show ?thesis
    by simp
qed

theorem verified_implies_sent_witness:
  "run verify_session initial = Some verified_state \<and>
   emailOtpVerified verified_state \<and> emailOtpSent verified_state \<and>
   \<not> phoneOtpVerified verified_state \<and>
   \<not> enabled VerifyEmailOtp initial \<and> run [VerifyEmailOtp] initial = None"
  using verified_implies_sent [of verify_session verified_state]
    verified_implies_sent [of "[]" initial]
  by (simp add: verify_session_def verified_state_def initial_def
      js_def trim_def isWhiteSpace_def)

section \<open>Attachments\<close>

text \<open>
  C7: the drop event and the file-input event are always available and both replace the
  attachment list by the old list followed by the new files in their order, with no
  deduplication, changing no other field; the remove event at a position \<open>i\<close> of the
  list deletes exactly that element: the list gets one shorter, the elements before \<open>i\<close>
  stay where they are and every later element moves down by one position.
\<close>

theorem attachments_add_remove:
  "files (handler (DropFiles new) s) = files s @ new \<and>
   files (handler (ChooseFiles new) s) = files s @ new \<and>
   handler (DropFiles new) s = s\<lparr>files := files s @ new\<rparr> \<and>
   handler (ChooseFiles new) s = s\<lparr>files := files s @ new\<rparr> \<and>
   enabled (DropFiles new) s \<and> enabled (ChooseFiles new) s \<and>
   run [DropFiles new] s = Some (s\<lparr>files := files s @ new\<rparr>) \<and>
   run [ChooseFiles new] s = Some (s\<lparr>files := files s @ new\<rparr>) \<and>
   files (handleDrop new s) = files s @ new \<and>
   files (handleChosen new s) = files s @ new \<and>
   handler (DropFiles new) s = handler (ChooseFiles new) s \<and>
   files (handler (RemoveFile i) s) = removeAt i (files s) \<and>
   enabled (RemoveFile i) s = (i < length (files s)) \<and>
   (i < length (files s) \<longrightarrow>
      files (handler (RemoveFile i) s) = take i (files s) @ drop (Suc i) (files s)) \<and>
   (i < length xs \<longrightarrow>
      removeAt i xs = take i xs @ drop (Suc i) xs \<and>
      Suc (length (removeAt i xs)) = length xs \<and>
      (\<forall>j. j < i \<longrightarrow> removeAt i xs ! j = xs ! j) \<and>
      (\<forall>j. i \<le> j \<and> Suc j < length xs \<longrightarrow> removeAt i xs ! j = xs ! Suc j))"
proof -
  have dropped: "handleDrop new s = s\<lparr>files := files s @ new\<rparr>"
    by (cases new) (simp_all add: handleDrop_def)
  have chosen: "handleChosen new s = s\<lparr>files := files s @ new\<rparr>"
    by (cases new) (simp_all add: handleChosen_def)
  have drop_state: "handler (DropFiles new) s = s\<lparr>files := files s @ new\<rparr>"
    by (simp add: dropped)
  have chosen_state: "handler (ChooseFiles new) s = s\<lparr>files := files s @ new\<rparr>"
    by (simp add: chosen)
  have events: "files (handler (DropFiles new) s) = files s @ new \<and>
                files (handler (ChooseFiles new) s) = files s @ new \<and>
                enabled (DropFiles new) s \<and> enabled (ChooseFiles new) s \<and>
                run [DropFiles new] s = Some (s\<lparr>files := files s @ new\<rparr>) \<and>
                run [ChooseFiles new] s = Some (s\<lparr>files := files s @ new\<rparr>)"
    by (simp add: dropped chosen)
  have add: "files (handleDrop new s) = files s @ new \<and>
             files (handleChosen new s) = files s @ new \<and>
             handler (DropFiles new) s = handler (ChooseFiles new) s"
    by (simp add: handleDrop_def handleChosen_def)
  have rem: "files (handler (RemoveFile i) s) = removeAt i (files s) \<and>
             enabled (RemoveFile i) s = (i < length (files s))"
    by simp
  have rem_state: "files (handler (RemoveFile i) s) = take i (files s) @ drop (Suc i) (files s)"
    by (simp add: removeAt_take_drop)
  have del: "removeAt i xs = take i xs @ drop (Suc i) xs \<and>
             Suc (length (removeAt i xs)) = length xs \<and>
             (\<forall>j. j < i \<longrightarrow> removeAt i xs ! j = xs ! j) \<and>
             (\<forall>j. i \<le> j \<and> Suc j < length xs \<longrightarrow> removeAt i xs ! j = xs ! Suc j)"
    if lt: "i < length xs"
  proof -
    have len: "length (take i xs) = i"
      using lt by simp
    have before: "removeAt i xs ! j = xs ! j" if "j < i" for j
      using that len by (simp add: removeAt_take_drop nth_append)
    have after: "removeAt i xs ! j = xs ! Suc j" if "i \<le> j" "Suc j < length xs" for j
    proof -
      have "removeAt i xs ! j = drop (Suc i) xs ! (j - i)"
        using that len by (simp add: removeAt_take_drop nth_append)
      also have "\<dots> = xs ! (Suc i + (j - i))"
        using that by (simp del: drop_Suc add_Suc)
      finally show ?thesis
        using that by simp
    qed
    have "Suc (length (removeAt i xs)) = length xs"
      using lt by (simp add: removeAt_take_drop)
    with before after show ?thesis
      by (simp add: removeAt_take_drop)
  qed
  from drop_state chosen_state events add rem rem_state del show ?thesis
    by blast
qed

theorem attachments_add_remove_witness:
  "files (handler (DropFiles two_files) (initial\<lparr>files := two_files\<rparr>)) =
     [File (js ''a.pdf'') 0, File (js ''b.pdf'') 1, File (js ''a.pdf'') 0, File (js ''b.pdf'') 1] \<and>
   files (handler (ChooseFiles two_files) (initial\<lparr>files := two_files\<rparr>)) =
     [File (js ''a.pdf'') 0, File (js ''b.pdf'') 1, File (js ''a.pdf'') 0, File (js ''b.pdf'') 1] \<and>
   run [DropFiles two_files] (initial\<lparr>files := two_files\<rparr>) =
     Some (initial\<lparr>files := two_files @ two_files\<rparr>) \<and>
   run [ChooseFiles two_files] (initial\<lparr>files := two_files\<rparr>) =
     Some (initial\<lparr>files := two_files @ two_files\<rparr>) \<and>
   files (handleDrop two_files (initial\<lparr>files := two_files\<rparr>)) =
     [File (js ''a.pdf'') 0, File (js ''b.pdf'') 1, File (js ''a.pdf'') 0, File (js ''b.pdf'') 1] \<and>
   (1::nat) < length (files (initial\<lparr>files := two_files @ two_files\<rparr>)) \<and>
   enabled (RemoveFile 1) (initial\<lparr>files := two_files @ two_files\<rparr>) \<and>
   files (handler (RemoveFile 1) (initial\<lparr>files := two_files @ two_files\<rparr>)) =
     [File (js ''a.pdf'') 0, File (js ''a.pdf'') 0, File (js ''b.pdf'') 1] \<and>
   (1::nat) < length (two_files @ two_files) \<and>
   removeAt 1 (two_files @ two_files) =
     [File (js ''a.pdf'') 0, File (js ''a.pdf'') 0, File (js ''b.pdf'') 1] \<and>
   removeAt 1 (two_files @ two_files) ! 1 = (two_files @ two_files) ! 2"
  using attachments_add_remove
      [where new = two_files and s = "initial\<lparr>files := two_files\<rparr>" and i = 1
         and xs = "two_files @ two_files"]
    attachments_add_remove
      [where new = two_files and s = "initial\<lparr>files := two_files @ two_files\<rparr>" and i = 1
         and xs = "two_files @ two_files"]
  by (simp add: two_files_def)

section \<open>Reaching step 2\<close>

text \<open>
  C8: when a session of enabled events from the initial state ends with step = 2, the
  session contains a "continue" event fired in a state where \<open>canGoStep2\<close> was true; no
  other event changes the step, and the continue button is enabled exactly when
  \<open>canGoStep2\<close> is true.
\<close>

theorem step2_only_after_continue:
  "(run es initial = Some s \<and> step s = Step2 \<longrightarrow>
      (\<exists>pre post t. es = pre @ ContinueToServices # post \<and>
                     run pre initial = Some t \<and> canGoStep2 t)) \<and>
   (e \<noteq> ContinueToServices \<longrightarrow> step (handler e s) = step s) \<and>
   enabled ContinueToServices s = canGoStep2 s \<and>
   step initial = Step1"
proof -
  have start: "step initial = Step1"
    by (simp add: initial_def)
  have "\<exists>pre post t. es = pre @ ContinueToServices # post \<and>
                     run pre initial = Some t \<and> canGoStep2 t"
    if "run es initial = Some s" "step s = Step2"
    using that(1) start that(2) by (rule continue_before_step2)
  then show ?thesis
    using start by (simp add: handler_step)
qed

theorem step2_only_after_continue_witness:
  "run (fill_session @ [ContinueToServices]) initial = Some (example_applicant\<lparr>step := Step2\<rparr>) \<and>
   step (example_applicant\<lparr>step := Step2\<rparr>) = Step2 \<and>
   (\<exists>pre post t. fill_session @ [ContinueToServices] = pre @ ContinueToServices # post \<and>
                  run pre initial = Some t \<and> canGoStep2 t) \<and>
   step (handler (SetName (js ''Jo'')) initial) = Step1 \<and>
   run [ContinueToServices] initial = None"
proof -
  have reach: "run (fill_session @ [ContinueToServices]) initial
                 = Some (example_applicant\<lparr>step := Step2\<rparr>)"
    by (simp add: fill_session_def example_applicant_def initial_def canGoStep2_unfold
        js_def trim_def isWhiteSpace_def)
  have blocked: "run [ContinueToServices] initial = None"
    by (simp add: initial_def canGoStep2_unfold js_def trim_def isWhiteSpace_def)
  have first: "step (handler (SetName (js ''Jo'')) initial) = Step1"
    by (simp add: initial_def)
  show ?thesis
    using step2_only_after_continue
      [of "fill_session @ [ContinueToServices]" "example_applicant\<lparr>step := Step2\<rparr>"
          "SetName (js ''Jo'')"]
      reach blocked first
    by simp
qed

section \<open>Back\<close>

text \<open>
  C9: the Back button of the counsel card and the Back button of the other-services
  card both set primaryService to the empty value, after which \<open>readyToBook\<close> is false,
  and change no other field: putting the old primaryService back gives the old state,
  and the step, the applicant fields, the OTP states, the counsel details and the
  attachment list are what they were.
\<close>

theorem back_clears_service_only:
  "handler OtherBack s = handler CounselBack s \<and>
   primaryService (handler CounselBack s) = service_empty \<and>
   \<not> readyToBook (handler CounselBack s) \<and>
   (handler CounselBack s)\<lparr>primaryService := primaryService s\<rparr> = s \<and>
   step (handler CounselBack s) = step s \<and>
   name (handler CounselBack s) = name s \<and>
   gender (handler CounselBack s) = gender s \<and>
   email (handler CounselBack s) = email s \<and>
   emailOtp (handler CounselBack s) = emailOtp s \<and>
   phone (handler CounselBack s) = phone s \<and>
   phoneOtp (handler CounselBack s) = phoneOtp s \<and>
   nationality (handler CounselBack s) = nationality s \<and>
   dob (handler CounselBack s) = dob s \<and>
   address (handler CounselBack s) = address s \<and>
   emailOtpSent (handler CounselBack s) = emailOtpSent s \<and>
   emailOtpVerified (handler CounselBack s) = emailOtpVerified s \<and>
   phoneOtpSent (handler CounselBack s) = phoneOtpSent s \<and>
   phoneOtpVerified (handler CounselBack s) = phoneOtpVerified s \<and>
   legalDomain (handler CounselBack s) = legalDomain s \<and>
   caseDetails (handler CounselBack s) = caseDetails s \<and>
   consultMode (handler CounselBack s) = consultMode s \<and>
   preferredDate (handler CounselBack s) = preferredDate s \<and>
   timeWindow (handler CounselBack s) = timeWindow s \<and>
   urgency (handler CounselBack s) = urgency s \<and>
   pastLegalAction (handler CounselBack s) = pastLegalAction s \<and>
   files (handler CounselBack s) = files s"
  by (simp add: readyToBook_def)

theorem back_clears_service_only_witness:
  "readyToBook complete_counsel \<and>
   \<not> readyToBook (handler CounselBack complete_counsel) \<and>
   \<not> readyToBook (handler OtherBack (initial\<lparr>primaryService := document_review\<rparr>)) \<and>
   handler OtherBack (initial\<lparr>primaryService := document_review\<rparr>) = initial \<and>
   caseDetails (handler CounselBack complete_counsel) = js ''1234567890''"
  using back_clears_service_only [of complete_counsel]
    back_clears_service_only [of "initial\<lparr>primaryService := document_review\<rparr>"]
  by (simp add: readyToBook_def isCounsel_iff counselReady_unfold complete_counsel_def
      padded_counsel_def initial_def js_def trim_def isWhiteSpace_def)

section \<open>Time window and urgency are never empty\<close>

text \<open>
  C10: preferredDate, timeWindow and urgency start as "2026-02-20",
  "12:00 PM - 02:00 PM" and standard_24_48, all non-empty; an enabled event leaves the
  time window as it is or writes one of the five options, none of them empty, and every
  urgency tier is a non-empty literal; so in every state reached from the initial state
  the time window and the urgency are non-empty. Right after get_counsel is selected in
  the initial state, \<open>counselReady\<close> is false, and it is decided by the legal domain,
  the case details, the consult mode and the past legal action alone.
\<close>

theorem timeWindow_urgency_never_empty:
  "preferredDate initial = js ''2026-02-20'' \<and>
   timeWindow initial = js ''12:00 PM - 02:00 PM'' \<and>
   urgency initial = standard_24_48 \<and>
   preferredDate initial \<noteq> js '''' \<and> timeWindow initial \<noteq> js '''' \<and>
   Urgency_lit (urgency initial) \<noteq> js '''' \<and>
   (enabled e s \<longrightarrow>
      timeWindow (handler e s) = timeWindow s \<or>
      timeWindow (handler e s) \<in> set timeWindowOptions) \<and>
   (\<forall>t \<in> set timeWindowOptions. t \<noteq> js '''') \<and>
   Urgency_lit u \<noteq> js '''' \<and>
   (run es initial = Some s \<longrightarrow> timeWindow s \<noteq> js '''' \<and> Urgency_lit (urgency s) \<noteq> js '''') \<and>
   \<not> counselReady (handler (SelectPrimaryService get_counsel) initial) \<and>
   (counselReady ((handler (SelectPrimaryService get_counsel) initial)
       \<lparr>legalDomain := d, caseDetails := c, consultMode := m, pastLegalAction := p\<rparr>)
      \<longleftrightarrow> d \<noteq> domain_empty \<and> 10 \<le> length (trim c) \<and> m \<noteq> mode_empty \<and> p \<noteq> past_empty)"
proof -
  have init: "preferredDate initial = js ''2026-02-20'' \<and>
      timeWindow initial = js ''12:00 PM - 02:00 PM'' \<and> urgency initial = standard_24_48"
    by (simp add: initial_def)
  then have init_ne: "preferredDate initial \<noteq> js '''' \<and> timeWindow initial \<noteq> js ''''"
    by simp
  have opts: "\<forall>t \<in> set timeWindowOptions. t \<noteq> js ''''"
    using timeWindowOptions_not_empty by simp
  have keep: "timeWindow (handler e' t) \<noteq> []" if "timeWindow t \<noteq> []" "enabled e' t" for e' t
    using handler_timeWindow [OF that(2)] that(1) timeWindowOptions_not_empty by auto
  have reach: "timeWindow s \<noteq> []" if "run es initial = Some s"
  proof -
    have "timeWindow initial \<noteq> []"
      using init_ne by simp
    then show ?thesis
      using keep that by (rule run_invariant [where P = "\<lambda>t. timeWindow t \<noteq> []"])
  qed
  have fresh: "\<not> counselReady (handler (SelectPrimaryService get_counsel) initial)"
    by (simp add: counselReady_unfold initial_def)
  have four: "counselReady ((handler (SelectPrimaryService get_counsel) initial)
       \<lparr>legalDomain := d, caseDetails := c, consultMode := m, pastLegalAction := p\<rparr>)
      \<longleftrightarrow> d \<noteq> domain_empty \<and> 10 \<le> length (trim c) \<and> m \<noteq> mode_empty \<and> p \<noteq> past_empty"
    using init_ne by (simp add: counselReady_unfold)
  show ?thesis
    using init init_ne opts reach fresh four handler_timeWindow [of e s]
    by simp
qed

theorem timeWindow_urgency_never_empty_witness:
  "run counsel_session initial = Some counsel_session_end \<and>
   timeWindow counsel_session_end = js ''06:00 PM - 08:00 PM'' \<and>
   timeWindow counsel_session_end \<noteq> js '''' \<and>
   Urgency_lit (urgency counsel_session_end) \<noteq> js '''' \<and>
   enabled (SelectTimeWindow (js ''06:00 PM - 08:00 PM'')) counsel_session_end \<and>
   js ''06:00 PM - 08:00 PM'' \<in> set timeWindowOptions \<and>
   \<not> enabled (SelectTimeWindow (js '''')) initial \<and>
   counselReady ((handler (SelectPrimaryService get_counsel) initial)
       \<lparr>legalDomain := Other_domain, caseDetails := js ''1234567890'', consultMode := audio,
        pastLegalAction := yes\<rparr>)"
proof -
  have reach: "run counsel_session initial = Some counsel_session_end"
    by (simp add: counsel_session_def counsel_session_end_def initial_def
        PRIMARY_SERVICES_def timeWindowOptions_def js_def)
  have opt: "js ''06:00 PM - 08:00 PM'' \<in> set timeWindowOptions \<and>
             js '''' \<notin> set timeWindowOptions"
    by (simp add: timeWindowOptions_def js_def)
  have len: "10 \<le> length (trim (js ''1234567890''))"
    by (simp add: js_def trim_def isWhiteSpace_def)
  show ?thesis
    using timeWindow_urgency_never_empty
      [where e = "SelectTimeWindow (js ''06:00 PM - 08:00 PM'')" and s = counsel_session_end
         and u = within_2 and es = counsel_session and d = Other_domain
         and c = "js ''1234567890''" and m = audio and p = yes]
      reach opt len
    by (simp add: counsel_session_end_def)
qed

end
